theory Spec2Isabelle
  imports Main
begin

section \<open>The Web PubSub custom certificate resource\<close>

text \<open>
  A shallow embedding of
  \<^verbatim>\<open>internal/services/signalr/web_pubsub_custom_certificate_resource.go\<close>:
  the resource's model, its three lifecycle functions (Create, Read, Delete) and the
  helpers they call. The remote API client, the key vault resolver and the host's
  decoder are collaborators of the resource; they are the fields of the record
  \<open>Client\<close>, and every remote call is appended to a log kept in the state.
\<close>

subsection \<open>Strings\<close>

text \<open>Go's \<^verbatim>\<open>strings.Split(s, sep)\<close> for a separator of one character:
  the empty string splits into one empty piece.\<close>

fun split_on :: "char \<Rightarrow> string \<Rightarrow> string list" where
  "split_on c [] = [] # []"
| "split_on c (x # xs) =
     (if x = c then [] # split_on c xs
      else (case split_on c xs of
              [] \<Rightarrow> [x] # []
            | y # ys \<Rightarrow> (x # y) # ys))"

text \<open>Go's \<^verbatim>\<open>strings.Join(segments, sep)\<close>.\<close>

fun join :: "string \<Rightarrow> string list \<Rightarrow> string" where
  "join sep [] = []"
| "join sep [s] = s"
| "join sep (s # t # ts) = s @ sep @ join sep (t # ts)"

text \<open>Go's \<^verbatim>\<open>strings.TrimSuffix(s, "/")\<close>: at most one character is removed.\<close>

definition trim_suffix_slash :: "string \<Rightarrow> string" where
  "trim_suffix_slash s = (if s \<noteq> [] \<and> last s = CHR ''/'' then butlast s else s)"

subsection \<open>Errors\<close>

text \<open>One constructor for each place where the resource builds an error with
  \<^verbatim>\<open>fmt.Errorf\<close>, one for each error a helper returns, \<open>Upstream\<close> for the
  errors of the collaborators, which the resource wraps or passes on, and
  \<open>NilPointerDereference\<close> for the panic of reading through a nil pointer.\<close>

datatype error =
    Upstream string
  | DecodingError error
  | ParsingWebPubsubIdError error
  | ParsingCustomCertificateIdError error
  | CheckingForExistingError string error
  | ImportAsExistsError string string
  | CreatingError string error
  | RetrievingError string error
  | NilModelError string
  | KeyVaultBaseUriError string error
  | ParsingKeyVaultError error
  | DeletingError string error
  | ParseError string
  | NilPointerDereference

subsection \<open>Resource identifiers\<close>

record WebPubSubId =
  SubscriptionId :: string
  ResourceGroupName :: string
  WebPubSubName :: string

record CustomCertificateId =
  SubscriptionId :: string
  ResourceGroupName :: string
  WebPubSubName :: string
  CustomCertificateName :: string

text \<open>Modelled from the spec: the identifier package \<^verbatim>\<open>webpubsub\<close> of the SDK is not
  part of the sources. The spec gives the grammar of the resource identifier as
  \<^verbatim>\<open><parent-service-scope>/customCertificates/<name>\<close>, the parent scope as a
  (subscription, resource group, service name) triple ending in
  \<^verbatim>\<open>/webPubSub/<service>\<close>, and asks that parsing and formatting round-trip. The
  scope is written out the way resource identifiers of the platform are:
  \<^verbatim>\<open>/subscriptions/<s>/resourceGroups/<g>/providers/Microsoft.SignalRService/webPubSub/<n>\<close>.
  The constructors only store their arguments.\<close>

definition NewWebPubSubID :: "string \<Rightarrow> string \<Rightarrow> string \<Rightarrow> WebPubSubId" where
  "NewWebPubSubID subscriptionId resourceGroupName webPubSubName =
     \<lparr> WebPubSubId.SubscriptionId = subscriptionId,
       WebPubSubId.ResourceGroupName = resourceGroupName,
       WebPubSubId.WebPubSubName = webPubSubName \<rparr>"

definition NewCustomCertificateID ::
  "string \<Rightarrow> string \<Rightarrow> string \<Rightarrow> string \<Rightarrow> CustomCertificateId" where
  "NewCustomCertificateID subscriptionId resourceGroupName webPubSubName customCertificateName =
     \<lparr> CustomCertificateId.SubscriptionId = subscriptionId,
       CustomCertificateId.ResourceGroupName = resourceGroupName,
       CustomCertificateId.WebPubSubName = webPubSubName,
       CustomCertificateName = customCertificateName \<rparr>"

definition WebPubSubId_segments :: "WebPubSubId \<Rightarrow> string list" where
  "WebPubSubId_segments i =
     ['''', ''subscriptions'', WebPubSubId.SubscriptionId i,
      ''resourceGroups'', WebPubSubId.ResourceGroupName i,
      ''providers'', ''Microsoft.SignalRService'',
      ''webPubSub'', WebPubSubId.WebPubSubName i]"

definition WebPubSubId_ID :: "WebPubSubId \<Rightarrow> string" where
  "WebPubSubId_ID i = join ''/'' (WebPubSubId_segments i)"

definition CustomCertificateId_segments :: "CustomCertificateId \<Rightarrow> string list" where
  "CustomCertificateId_segments i =
     ['''', ''subscriptions'', CustomCertificateId.SubscriptionId i,
      ''resourceGroups'', CustomCertificateId.ResourceGroupName i,
      ''providers'', ''Microsoft.SignalRService'',
      ''webPubSub'', CustomCertificateId.WebPubSubName i,
      ''customCertificates'', CustomCertificateName i]"

definition CustomCertificateId_ID :: "CustomCertificateId \<Rightarrow> string" where
  "CustomCertificateId_ID i = join ''/'' (CustomCertificateId_segments i)"

text \<open>Modelled from the spec: the parsers of the two identifiers (same package, not part
  of the sources). An identifier is split at \<^verbatim>\<open>/\<close>; the fixed segments must be
  there literally and every named segment must be non-empty.\<close>

definition ParseWebPubSubID :: "string \<Rightarrow> error + WebPubSubId" where
  "ParseWebPubSubID input =
     (case split_on (CHR ''/'') input of
        [e, k1, s, k2, g, k3, p, k4, n] \<Rightarrow>
          if e = [] \<and> k1 = ''subscriptions'' \<and> k2 = ''resourceGroups'' \<and> k3 = ''providers''
             \<and> p = ''Microsoft.SignalRService'' \<and> k4 = ''webPubSub''
             \<and> s \<noteq> [] \<and> g \<noteq> [] \<and> n \<noteq> []
          then Inr (NewWebPubSubID s g n)
          else Inl (ParseError input)
      | _ \<Rightarrow> Inl (ParseError input))"

definition ParseCustomCertificateID :: "string \<Rightarrow> error + CustomCertificateId" where
  "ParseCustomCertificateID input =
     (case split_on (CHR ''/'') input of
        [e, k1, s, k2, g, k3, p, k4, n, k5, c] \<Rightarrow>
          if e = [] \<and> k1 = ''subscriptions'' \<and> k2 = ''resourceGroups'' \<and> k3 = ''providers''
             \<and> p = ''Microsoft.SignalRService'' \<and> k4 = ''webPubSub''
             \<and> k5 = ''customCertificates''
             \<and> s \<noteq> [] \<and> g \<noteq> [] \<and> n \<noteq> [] \<and> c \<noteq> []
          then Inr (NewCustomCertificateID s g n c)
          else Inl (ParseError input)
      | _ \<Rightarrow> Inl (ParseError input))"


subsection \<open>Key vault nested items\<close>

record NestedItemId =
  KeyVaultBaseUrl :: string
  NestedItemType :: string
  Name :: string
  Version :: string

text \<open>Modelled from the spec: the package \<^verbatim>\<open>keyvault/parse\<close> is not part of the
  sources. The spec's example reads
  \<^verbatim>\<open>https://vault1.vault.azure.net/secrets/mycert/abc123\<close> as the vault address
  \<^verbatim>\<open>https://vault1.vault.azure.net/\<close>, the name \<^verbatim>\<open>mycert\<close> and the version
  \<^verbatim>\<open>abc123\<close>, and says that a reference may come with or without a version. So a
  reference is \<^verbatim>\<open><scheme>://<host>/<kind>/<name>\<close>, with \<^verbatim>\<open>/<version>\<close> after it
  or not; one closing \<^verbatim>\<open>/\<close> is ignored.\<close>

definition ParseOptionallyVersionedNestedItemID :: "string \<Rightarrow> error + NestedItemId" where
  "ParseOptionallyVersionedNestedItemID input =
     (case split_on (CHR ''/'') input of
        scheme # e # host # path \<Rightarrow>
          if scheme \<noteq> [] \<and> last scheme = CHR '':'' \<and> e = [] \<and> host \<noteq> []
          then
            (let components = (if path \<noteq> [] \<and> last path = [] then butlast path else path);
                 base = scheme @ ''//'' @ host @ ''/''
             in case components of
                  [t, n] \<Rightarrow>
                    Inr \<lparr> KeyVaultBaseUrl = base, NestedItemType = t,
                          NestedItemId.Name = n, Version = [] \<rparr>
                | [t, n, v] \<Rightarrow>
                    Inr \<lparr> KeyVaultBaseUrl = base, NestedItemType = t,
                          NestedItemId.Name = n, Version = v \<rparr>
                | _ \<Rightarrow> Inl (ParseError input))
          else Inl (ParseError input)
      | _ \<Rightarrow> Inl (ParseError input))"

text \<open>Modelled from the spec: the constructor and the formatter of the same package.
  The spec has the reference rebuilt from (vault address, item kind, name,
  version-or-empty), the version left out when it is empty. The source handles an error
  of the constructor; the spec names none, and the model raises it for an empty vault
  address only.\<close>

definition NewNestedItemID ::
  "string \<Rightarrow> string \<Rightarrow> string \<Rightarrow> string \<Rightarrow> error + NestedItemId" where
  "NewNestedItemID keyVaultBaseUrl nestedItemType name version =
     (if keyVaultBaseUrl = [] then Inl (ParseError keyVaultBaseUrl)
      else Inr \<lparr> KeyVaultBaseUrl = keyVaultBaseUrl, NestedItemType = nestedItemType,
                 NestedItemId.Name = name, Version = version \<rparr>)"

definition NestedItemId_segments :: "NestedItemId \<Rightarrow> string list" where
  "NestedItemId_segments n =
     [trim_suffix_slash (KeyVaultBaseUrl n), NestedItemType n, NestedItemId.Name n]
     @ (if Version n \<noteq> [] then [Version n] else [])"

definition NestedItemId_ID :: "NestedItemId \<Rightarrow> string" where
  "NestedItemId_ID n = join ''/'' (NestedItemId_segments n)"

subsection \<open>The remote object and the client's responses\<close>

record CustomCertificateProperties =
  KeyVaultBaseUri :: string
  KeyVaultSecretName :: string
  KeyVaultSecretVersion :: "string option"

record CustomCertificate =
  Properties :: CustomCertificateProperties

record Response =
  StatusCode :: int

record CustomCertificatesGetOperationResponse =
  HttpResponse :: "Response option"
  Model :: "CustomCertificate option"

text \<open>Modelled from the spec: \<^verbatim>\<open>response.WasNotFound\<close> belongs to a helper
  library that is not part of the sources. It tells the "not-found" response: a response
  is there and its status is 404.\<close>

definition WasNotFound :: "Response option \<Rightarrow> bool" where
  "WasNotFound resp = (case resp of None \<Rightarrow> False | Some r \<Rightarrow> StatusCode r = 404)"

text \<open>Modelled from the spec: \<^verbatim>\<open>utils.String\<close> and
  \<^verbatim>\<open>utils.NormalizeNilableString\<close> are not part of the sources. The first makes a
  pointer to a string; the second reads one, the empty string if it is absent.\<close>

definition String :: "string \<Rightarrow> string option" where
  "String s = Some s"

definition NormalizeNilableString :: "string option \<Rightarrow> string" where
  "NormalizeNilableString input = (case input of None \<Rightarrow> [] | Some s \<Rightarrow> s)"

subsection \<open>State: the resource data and the log of remote calls\<close>

record CustomCertWebPubsubModel =
  Name :: string
  WebPubsubId :: string
  CustomCertId :: string
  CertificateVersion :: string

text \<open>The host's resource data: the identifier that is the state key, and the four
  fields of the schema (three arguments and one computed attribute).\<close>

record ResourceData =
  Id :: string
  name :: string
  web_pubsub_id :: string
  custom_certificate_id :: string
  certificate_version :: string

datatype call =
    CustomCertificatesGetCall CustomCertificateId
  | CustomCertificatesCreateOrUpdateThenPollCall CustomCertificateId CustomCertificate
  | CustomCertificatesDeleteCall CustomCertificateId
  | KeyVaultIDFromBaseUrlCall string

record ResourceMetaData =
  ResourceData :: ResourceData
  calls :: "call list"

text \<open>What the resource reaches through \<^verbatim>\<open>metadata\<close> and cannot compute itself:
  the host's decoder (\<^verbatim>\<open>metadata.Decode\<close>), the Web PubSub client, the key vault
  client and the parser of vault identifiers. Each answer of the remote side may depend
  on the calls made so far. \<open>KeyVaultIDFromBaseUrl\<close> returns a pointer that can be
  nil without an error; the source reads through it.\<close>

record Client =
  Decode :: "ResourceData \<Rightarrow> error + CustomCertWebPubsubModel"
  CustomCertificatesGet ::
    "call list \<Rightarrow> CustomCertificateId \<Rightarrow> CustomCertificatesGetOperationResponse \<times> error option"
  CustomCertificatesCreateOrUpdateThenPoll ::
    "call list \<Rightarrow> CustomCertificateId \<Rightarrow> CustomCertificate \<Rightarrow> error option"
  CustomCertificatesDelete :: "call list \<Rightarrow> CustomCertificateId \<Rightarrow> error option"
  KeyVaultIDFromBaseUrl :: "call list \<Rightarrow> string \<Rightarrow> error + string option"
  ParseKeyVaultID :: "string \<Rightarrow> error option"

definition record_call :: "call \<Rightarrow> ResourceMetaData \<Rightarrow> ResourceMetaData" where
  "record_call c metadata = metadata\<lparr> calls := calls metadata @ [c] \<rparr>"

text \<open>Modelled from the spec: the methods of \<^verbatim>\<open>sdk.ResourceMetaData\<close> are not part
  of the sources. \<open>SetID\<close> persists the identifier as the state key; \<open>MarkAsGone\<close>
  removes the binding from state (the key becomes empty) and returns no error;
  \<open>ResourceRequiresImport\<close> is the "already exists, import required" error;
  \<open>Encode\<close> writes the record into the four fields.\<close>

definition SetID :: "ResourceMetaData \<Rightarrow> CustomCertificateId \<Rightarrow> ResourceMetaData" where
  "SetID metadata formatter =
     metadata\<lparr> ResourceData := (ResourceData metadata)\<lparr> Id := CustomCertificateId_ID formatter \<rparr> \<rparr>"

definition MarkAsGone ::
  "ResourceMetaData \<Rightarrow> CustomCertificateId \<Rightarrow> error option \<times> ResourceMetaData" where
  "MarkAsGone metadata idFormatter =
     (None, metadata\<lparr> ResourceData := (ResourceData metadata)\<lparr> Id := [] \<rparr> \<rparr>)"

definition ResourceRequiresImport :: "string \<Rightarrow> CustomCertificateId \<Rightarrow> error option" where
  "ResourceRequiresImport resourceName idFormatter =
     Some (ImportAsExistsError resourceName (CustomCertificateId_ID idFormatter))"

definition Encode ::
  "ResourceMetaData \<Rightarrow> CustomCertWebPubsubModel \<Rightarrow> error option \<times> ResourceMetaData" where
  "Encode metadata input =
     (None, metadata\<lparr> ResourceData := (ResourceData metadata)
        \<lparr> name := Name input,
          web_pubsub_id := WebPubsubId input,
          custom_certificate_id := CustomCertId input,
          certificate_version := CertificateVersion input \<rparr> \<rparr>)"

subsection \<open>The lifecycle functions\<close>

text \<open>\<^verbatim>\<open>time.Duration\<close> counts nanoseconds.\<close>

definition Second :: int where
  "Second = 1000000000"

definition Minute :: int where
  "Minute = 60 * Second"

record ResourceFunc =
  Timeout :: int
  Func :: "Client \<Rightarrow> ResourceMetaData \<Rightarrow> error option \<times> ResourceMetaData"

definition ResourceType :: string where
  "ResourceType = ''azurerm_web_pubsub_custom_certificate''"

text \<open>The function of Create. In its first test the error of the lookup is not nil, so
  \<open>the err\<close> is that error.\<close>

definition Create_Func :: "Client \<Rightarrow> ResourceMetaData \<Rightarrow> error option \<times> ResourceMetaData" where
  "Create_Func client metadata =
     (case Decode client (ResourceData metadata) of
        Inl err \<Rightarrow> (Some (DecodingError err), metadata)
      | Inr customCertWebPubsub \<Rightarrow>
     (case ParseWebPubSubID (web_pubsub_id (ResourceData metadata)) of
        Inl err \<Rightarrow> (Some (ParsingWebPubsubIdError err), metadata)
      | Inr webPubsubId \<Rightarrow>
     (case ParseOptionallyVersionedNestedItemID (custom_certificate_id (ResourceData metadata)) of
        Inl err \<Rightarrow> (Some (ParsingCustomCertificateIdError err), metadata)
      | Inr keyVaultCertificateId \<Rightarrow>
     (let keyVaultUri = KeyVaultBaseUrl keyVaultCertificateId;
          keyVaultSecretName = NestedItemId.Name keyVaultCertificateId;
          id' = NewCustomCertificateID (WebPubSubId.SubscriptionId webPubsubId)
                 (WebPubSubId.ResourceGroupName webPubsubId)
                 (WebPubSubId.WebPubSubName webPubsubId) (Name customCertWebPubsub)
      in case CustomCertificatesGet client (calls metadata) id' of (existing, err) \<Rightarrow>
     (let metadata1 = record_call (CustomCertificatesGetCall id') metadata
      in if err \<noteq> None \<and> \<not> WasNotFound (HttpResponse existing)
         then (Some (CheckingForExistingError (CustomCertificateId_ID id') (the err)), metadata1)
         else if \<not> WasNotFound (HttpResponse existing)
         then (ResourceRequiresImport ResourceType id', metadata1)
         else
           (let customCertObj0 =
                  \<lparr> Properties =
                      \<lparr> KeyVaultBaseUri = keyVaultUri,
                        KeyVaultSecretName = keyVaultSecretName,
                        KeyVaultSecretVersion = None \<rparr> \<rparr>;
                customCertObj =
                  (if Version keyVaultCertificateId \<noteq> []
                   then customCertObj0\<lparr> Properties := (Properties customCertObj0)
                          \<lparr> KeyVaultSecretVersion := String (Version keyVaultCertificateId) \<rparr> \<rparr>
                   else customCertObj0);
                metadata2 =
                  record_call (CustomCertificatesCreateOrUpdateThenPollCall id' customCertObj) metadata1
            in case CustomCertificatesCreateOrUpdateThenPoll client (calls metadata1) id' customCertObj of
                 Some e \<Rightarrow> (Some (CreatingError (CustomCertificateId_ID id') e), metadata2)
               | None \<Rightarrow> (None, SetID metadata2 id')))))))"

definition Create :: ResourceFunc where
  "Create = \<lparr> Timeout = 30 * Minute, Func = Create_Func \<rparr>"

definition Read_Func :: "Client \<Rightarrow> ResourceMetaData \<Rightarrow> error option \<times> ResourceMetaData" where
  "Read_Func client metadata =
     (case ParseCustomCertificateID (Id (ResourceData metadata)) of
        Inl err \<Rightarrow> (Some err, metadata)
      | Inr id' \<Rightarrow>
     (case CustomCertificatesGet client (calls metadata) id' of (resp, err) \<Rightarrow>
     (let metadata1 = record_call (CustomCertificatesGetCall id') metadata
      in case err of
           Some e \<Rightarrow>
             if WasNotFound (HttpResponse resp) then MarkAsGone metadata1 id'
             else (Some (RetrievingError (CustomCertificateId_ID id') e), metadata1)
         | None \<Rightarrow>
     (case Model resp of
        None \<Rightarrow> (Some (NilModelError (CustomCertificateId_ID id')), metadata1)
      | Some model \<Rightarrow>
     (let vaultBasedUri = KeyVaultBaseUri (Properties model);
          certName = KeyVaultSecretName (Properties model);
          metadata2 = record_call (KeyVaultIDFromBaseUrlCall vaultBasedUri) metadata1
      in case KeyVaultIDFromBaseUrl client (calls metadata1) vaultBasedUri of
           Inl e \<Rightarrow> (Some (KeyVaultBaseUriError (CustomCertificateId_ID id') e), metadata2)
         | Inr None \<Rightarrow> (Some NilPointerDereference, metadata2)
         | Inr (Some keyVaultIdRaw) \<Rightarrow>
     (case ParseKeyVaultID client keyVaultIdRaw of
        Some e \<Rightarrow> (Some (ParsingKeyVaultError e), metadata2)
      | None \<Rightarrow>
     (let certVersion =
            (case KeyVaultSecretVersion (Properties model) of None \<Rightarrow> [] | Some v \<Rightarrow> v)
      in case NewNestedItemID vaultBasedUri ''certificates'' certName certVersion of
           Inl e \<Rightarrow> (Some e, metadata2)
         | Inr nestedItem \<Rightarrow>
     (let certId = NestedItemId_ID nestedItem;
          state =
            \<lparr> Name = CustomCertificateName id',
              WebPubsubId =
                WebPubSubId_ID (NewWebPubSubID (CustomCertificateId.SubscriptionId id')
                  (CustomCertificateId.ResourceGroupName id')
                  (CustomCertificateId.WebPubSubName id')),
              CustomCertId = certId,
              CertificateVersion =
                NormalizeNilableString (KeyVaultSecretVersion (Properties model)) \<rparr>
      in Encode metadata2 state))))))))"

definition Read :: ResourceFunc where
  "Read = \<lparr> Timeout = 5 * Minute, Func = Read_Func \<rparr>"

definition Delete_Func :: "Client \<Rightarrow> ResourceMetaData \<Rightarrow> error option \<times> ResourceMetaData" where
  "Delete_Func client metadata =
     (case ParseCustomCertificateID (Id (ResourceData metadata)) of
        Inl err \<Rightarrow> (Some err, metadata)
      | Inr id' \<Rightarrow>
     (let metadata1 = record_call (CustomCertificatesDeleteCall id') metadata
      in case CustomCertificatesDelete client (calls metadata) id' of
           Some e \<Rightarrow> (Some (DeletingError (CustomCertificateId_ID id') e), metadata1)
         | None \<Rightarrow> (None, metadata1)))"

definition Delete :: ResourceFunc where
  "Delete = \<lparr> Timeout = 30 * Minute, Func = Delete_Func \<rparr>"

subsection \<open>A remote side that keeps what it is given\<close>

text \<open>A stand-in for the collaborators, for running the lifecycle functions on
  concrete inputs: the remote side holds the objects that were submitted and not deleted
  since, a lookup of an object it does not hold answers 404 with an error, the decoder
  reads the fields as they are, and the vault resolver knows one vault.\<close>

definition apply_call ::
  "(CustomCertificateId \<rightharpoonup> CustomCertificate) \<Rightarrow> call \<Rightarrow> (CustomCertificateId \<rightharpoonup> CustomCertificate)" where
  "apply_call objects c =
     (case c of
        CustomCertificatesCreateOrUpdateThenPollCall i obj \<Rightarrow> objects(i \<mapsto> obj)
      | CustomCertificatesDeleteCall i \<Rightarrow> objects(i := None)
      | _ \<Rightarrow> objects)"

definition remote_objects :: "call list \<Rightarrow> (CustomCertificateId \<rightharpoonup> CustomCertificate)" where
  "remote_objects log = foldl apply_call Map.empty log"

definition stub_Client :: Client where
  "stub_Client =
     \<lparr> Decode = (\<lambda>d. Inr \<lparr> Name = name d, WebPubsubId = web_pubsub_id d,
                           CustomCertId = custom_certificate_id d,
                           CertificateVersion = certificate_version d \<rparr>),
       CustomCertificatesGet = (\<lambda>log i.
          case remote_objects log i of
            None \<Rightarrow> (\<lparr> HttpResponse = Some \<lparr> StatusCode = 404 \<rparr>, Model = None \<rparr>,
                     Some (Upstream ''not found''))
          | Some obj \<Rightarrow> (\<lparr> HttpResponse = Some \<lparr> StatusCode = 200 \<rparr>, Model = Some obj \<rparr>,
                        None)),
       CustomCertificatesCreateOrUpdateThenPoll = (\<lambda>log i obj. None),
       CustomCertificatesDelete = (\<lambda>log i. None),
       KeyVaultIDFromBaseUrl = (\<lambda>log base. Inr (Some
          ''/subscriptions/sub1/resourceGroups/rg1/providers/Microsoft.KeyVault/vaults/vault1'')),
       ParseKeyVaultID = (\<lambda>raw. None) \<rparr>"

text \<open>The configuration of the spec's example, before anything was created.\<close>

definition example_config :: ResourceMetaData where
  "example_config =
     \<lparr> ResourceData =
         \<lparr> Id = [],
           name = ''cert1'',
           web_pubsub_id =
             ''/subscriptions/sub1/resourceGroups/rg1/providers/Microsoft.SignalRService/webPubSub/svcA'',
           custom_certificate_id = ''https://vault1.vault.azure.net/secrets/mycert/abc123'',
           certificate_version = [] \<rparr>,
       calls = [] \<rparr>"

text \<open>The identifier and the remote object of the example, the state after Create, and
  the state after a Read that follows it.\<close>

definition example_id :: CustomCertificateId where
  "example_id =
     \<lparr> CustomCertificateId.SubscriptionId = ''sub1'',
       CustomCertificateId.ResourceGroupName = ''rg1'',
       CustomCertificateId.WebPubSubName = ''svcA'',
       CustomCertificateName = ''cert1'' \<rparr>"

definition example_object :: CustomCertificate where
  "example_object =
     \<lparr> Properties =
         \<lparr> KeyVaultBaseUri = ''https://vault1.vault.azure.net/'',
           KeyVaultSecretName = ''mycert'',
           KeyVaultSecretVersion = Some ''abc123'' \<rparr> \<rparr>"

definition example_created :: ResourceMetaData where
  "example_created =
     \<lparr> ResourceData = (ResourceData example_config)
         \<lparr> Id := ''/subscriptions/sub1/resourceGroups/rg1/providers/Microsoft.SignalRService/webPubSub/svcA/customCertificates/cert1'' \<rparr>,
       calls = [CustomCertificatesGetCall example_id,
                CustomCertificatesCreateOrUpdateThenPollCall example_id example_object] \<rparr>"

definition example_refreshed :: ResourceMetaData where
  "example_refreshed =
     \<lparr> ResourceData = (ResourceData example_created)
         \<lparr> custom_certificate_id := ''https://vault1.vault.azure.net/certificates/mycert/abc123'',
           certificate_version := ''abc123'' \<rparr>,
       calls = calls example_created
               @ [CustomCertificatesGetCall example_id,
                  KeyVaultIDFromBaseUrlCall ''https://vault1.vault.azure.net/''] \<rparr>"

text \<open>The state when the remote object was deleted after Create, the state when the
  object was submitted without a version, and a client whose lookup answers 200 with
  no payload.\<close>

definition example_deleted :: ResourceMetaData where
  "example_deleted =
     example_created\<lparr> calls := calls example_created @ [CustomCertificatesDeleteCall example_id] \<rparr>"

definition example_unversioned_object :: CustomCertificate where
  "example_unversioned_object =
     \<lparr> Properties =
         \<lparr> KeyVaultBaseUri = ''https://vault1.vault.azure.net/'',
           KeyVaultSecretName = ''mycert'',
           KeyVaultSecretVersion = None \<rparr> \<rparr>"

definition example_unversioned :: ResourceMetaData where
  "example_unversioned =
     example_created\<lparr> calls := [CustomCertificatesGetCall example_id,
       CustomCertificatesCreateOrUpdateThenPollCall example_id example_unversioned_object] \<rparr>"

definition nil_model_Client :: Client where
  "nil_model_Client =
     stub_Client\<lparr> CustomCertificatesGet :=
       (\<lambda>log i. (\<lparr> HttpResponse = Some \<lparr> StatusCode = 200 \<rparr>, Model = None \<rparr>, None)) \<rparr>"

text \<open>A client that takes the object of the example and refuses every other one.\<close>

definition strict_Client :: Client where
  "strict_Client =
     stub_Client\<lparr> CustomCertificatesCreateOrUpdateThenPoll :=
       (\<lambda>log i obj. if obj = example_object then None
                    else Some (Upstream ''unexpected object'')) \<rparr>"

section \<open>Properties\<close>

subsection \<open>Splitting and joining\<close>





subsection \<open>Identifiers\<close>



subsection \<open>The strings of the example\<close>

lemma example_parent:
  "ParseWebPubSubID
     ''/subscriptions/sub1/resourceGroups/rg1/providers/Microsoft.SignalRService/webPubSub/svcA''
   = Inr \<lparr> WebPubSubId.SubscriptionId = ''sub1'', WebPubSubId.ResourceGroupName = ''rg1'',
           WebPubSubId.WebPubSubName = ''svcA'' \<rparr>"
  by (simp add: ParseWebPubSubID_def NewWebPubSubID_def)

lemma example_reference:
  "ParseOptionallyVersionedNestedItemID ''https://vault1.vault.azure.net/secrets/mycert/abc123''
   = Inr \<lparr> KeyVaultBaseUrl = ''https://vault1.vault.azure.net/'', NestedItemType = ''secrets'',
           NestedItemId.Name = ''mycert'', Version = ''abc123'' \<rparr>"
  by (simp add: ParseOptionallyVersionedNestedItemID_def)

lemma example_id_ID:
  "CustomCertificateId_ID example_id =
   ''/subscriptions/sub1/resourceGroups/rg1/providers/Microsoft.SignalRService/webPubSub/svcA/customCertificates/cert1''"
  by (simp add: CustomCertificateId_ID_def CustomCertificateId_segments_def example_id_def)

lemma example_id_parse:
  "ParseCustomCertificateID
     ''/subscriptions/sub1/resourceGroups/rg1/providers/Microsoft.SignalRService/webPubSub/svcA/customCertificates/cert1''
   = Inr example_id"
  by (simp add: ParseCustomCertificateID_def NewCustomCertificateID_def example_id_def)

lemma example_parent_ID:
  "WebPubSubId_ID (NewWebPubSubID ''sub1'' ''rg1'' ''svcA'') =
   ''/subscriptions/sub1/resourceGroups/rg1/providers/Microsoft.SignalRService/webPubSub/svcA''"
  by (simp add: WebPubSubId_ID_def WebPubSubId_segments_def NewWebPubSubID_def)

lemma example_created_Id:
  "ParseCustomCertificateID (Id (ResourceData example_created)) = Inr example_id"
  by (simp add: example_created_def example_id_parse)

subsection \<open>The stand-in for the collaborators\<close>

lemma stub_Decode:
  "Decode stub_Client d =
     Inr \<lparr> Name = name d, WebPubsubId = web_pubsub_id d,
           CustomCertId = custom_certificate_id d,
           CertificateVersion = certificate_version d \<rparr>"
  by (simp add: stub_Client_def)

lemma stub_Get_empty:
  "CustomCertificatesGet stub_Client [] i =
     (\<lparr> HttpResponse = Some \<lparr> StatusCode = 404 \<rparr>, Model = None \<rparr>, Some (Upstream ''not found''))"
  by (simp add: stub_Client_def remote_objects_def)

lemma stub_Get_created:
  "CustomCertificatesGet stub_Client (calls example_created) example_id =
     (\<lparr> HttpResponse = Some \<lparr> StatusCode = 200 \<rparr>, Model = Some example_object \<rparr>, None)"
  by (simp add: stub_Client_def remote_objects_def example_created_def apply_call_def)

lemma stub_Get_deleted:
  "CustomCertificatesGet stub_Client (calls example_deleted) example_id =
     (\<lparr> HttpResponse = Some \<lparr> StatusCode = 404 \<rparr>, Model = None \<rparr>, Some (Upstream ''not found''))"
  by (simp add: stub_Client_def remote_objects_def example_deleted_def example_created_def
      apply_call_def)

lemma stub_Get_unversioned:
  "CustomCertificatesGet stub_Client (calls example_unversioned) example_id =
     (\<lparr> HttpResponse = Some \<lparr> StatusCode = 200 \<rparr>, Model = Some example_unversioned_object \<rparr>,
      None)"
  by (simp add: stub_Client_def remote_objects_def example_unversioned_def apply_call_def)

lemma stub_CreateOrUpdate:
  "CustomCertificatesCreateOrUpdateThenPoll stub_Client log i obj = None"
  by (simp add: stub_Client_def)

lemma stub_KeyVaultIDFromBaseUrl:
  "KeyVaultIDFromBaseUrl stub_Client log base = Inr (Some
     ''/subscriptions/sub1/resourceGroups/rg1/providers/Microsoft.KeyVault/vaults/vault1'')"
  by (simp add: stub_Client_def)

lemma stub_ParseKeyVaultID: "ParseKeyVaultID stub_Client raw = None"
  by (simp add: stub_Client_def)

subsection \<open>Create, path by path\<close>

text \<open>When the lookup says not-found, Create submits the object and, if that succeeds,
  sets the identifier.\<close>

lemma Create_Func_not_found:
  assumes "Decode client (ResourceData metadata) = Inr m"
    and "ParseWebPubSubID (web_pubsub_id (ResourceData metadata)) = Inr p"
    and "ParseOptionallyVersionedNestedItemID (custom_certificate_id (ResourceData metadata)) = Inr k"
    and "i = NewCustomCertificateID (WebPubSubId.SubscriptionId p)
               (WebPubSubId.ResourceGroupName p) (WebPubSubId.WebPubSubName p) (Name m)"
    and "CustomCertificatesGet client (calls metadata) i = (existing, err)"
    and "WasNotFound (HttpResponse existing)"
    and "obj = \<lparr> Properties = \<lparr> KeyVaultBaseUri = KeyVaultBaseUrl k,
                   KeyVaultSecretName = NestedItemId.Name k,
                   KeyVaultSecretVersion = (if Version k = [] then None else Some (Version k)) \<rparr> \<rparr>"
    and "log = calls metadata @ [CustomCertificatesGetCall i,
                  CustomCertificatesCreateOrUpdateThenPollCall i obj]"
  shows "Create_Func client metadata =
           (case CustomCertificatesCreateOrUpdateThenPoll client
                   (calls metadata @ [CustomCertificatesGetCall i]) i obj of
              Some e \<Rightarrow> (Some (CreatingError (CustomCertificateId_ID i) e),
                          metadata\<lparr> calls := log \<rparr>)
            | None \<Rightarrow> (None, metadata\<lparr> ResourceData :=
                            (ResourceData metadata)\<lparr> Id := CustomCertificateId_ID i \<rparr>,
                          calls := log \<rparr>))"
  using assms unfolding Create_Func_def
  by (simp add: Let_def record_call_def SetID_def String_def split: option.splits)

text \<open>A Create that returns no error has decoded and parsed its input and has seen
  not-found at the lookup.\<close>

lemma Create_Func_cases:
  assumes "Create_Func client metadata = (None, metadata')"
  obtains m p k existing err where
    "Decode client (ResourceData metadata) = Inr m"
    "ParseWebPubSubID (web_pubsub_id (ResourceData metadata)) = Inr p"
    "ParseOptionallyVersionedNestedItemID (custom_certificate_id (ResourceData metadata)) = Inr k"
    "CustomCertificatesGet client (calls metadata)
       (NewCustomCertificateID (WebPubSubId.SubscriptionId p)
          (WebPubSubId.ResourceGroupName p) (WebPubSubId.WebPubSubName p) (Name m))
     = (existing, err)"
    "WasNotFound (HttpResponse existing)"
  using assms unfolding Create_Func_def
  by (auto simp: Let_def ResourceRequiresImport_def
      split: sum.splits prod.splits if_splits option.splits)

lemma example_Create:
  "Create_Func stub_Client example_config = (None, example_created)"
proof -
  have "Create_Func stub_Client example_config =
      (case CustomCertificatesCreateOrUpdateThenPoll stub_Client
              (calls example_config @ [CustomCertificatesGetCall example_id])
              example_id example_object of
         Some e \<Rightarrow> (Some (CreatingError (CustomCertificateId_ID example_id) e),
                     example_config\<lparr> calls := calls example_created \<rparr>)
       | None \<Rightarrow> (None, example_config\<lparr> ResourceData :=
                       (ResourceData example_config)\<lparr> Id := CustomCertificateId_ID example_id \<rparr>,
                     calls := calls example_created \<rparr>))"
  proof (rule Create_Func_not_found)
    show "Decode stub_Client (ResourceData example_config) =
      Inr \<lparr> Name = ''cert1'', WebPubsubId = web_pubsub_id (ResourceData example_config),
        CustomCertId = custom_certificate_id (ResourceData example_config),
        CertificateVersion = [] \<rparr>"
      by (simp add: stub_Decode example_config_def)
    show "ParseWebPubSubID (web_pubsub_id (ResourceData example_config)) =
      Inr \<lparr> WebPubSubId.SubscriptionId = ''sub1'', WebPubSubId.ResourceGroupName = ''rg1'',
           WebPubSubId.WebPubSubName = ''svcA'' \<rparr>"
      by (simp add: example_config_def example_parent)
    show "ParseOptionallyVersionedNestedItemID
            (custom_certificate_id (ResourceData example_config)) =
      Inr \<lparr> KeyVaultBaseUrl = ''https://vault1.vault.azure.net/'', NestedItemType = ''secrets'',
           NestedItemId.Name = ''mycert'', Version = ''abc123'' \<rparr>"
      by (simp add: example_config_def example_reference)
    show "CustomCertificatesGet stub_Client (calls example_config) example_id =
       (\<lparr> HttpResponse = Some \<lparr> StatusCode = 404 \<rparr>, Model = None \<rparr>,
        Some (Upstream ''not found''))"
      by (simp add: example_config_def stub_Get_empty)
  qed (simp_all add: example_id_def NewCustomCertificateID_def WasNotFound_def example_object_def
        example_created_def example_config_def)
  then show ?thesis
    by (simp add: stub_CreateOrUpdate example_id_ID example_created_def example_config_def)
qed

subsection \<open>Read, path by path\<close>

text \<open>When the lookup returns a payload and the vault is resolved, Read writes the four
  fields.\<close>

lemma Read_Func_model:
  assumes "ParseCustomCertificateID (Id (ResourceData metadata)) = Inr i"
    and "CustomCertificatesGet client (calls metadata) i = (resp, None)"
    and "Model resp = Some model"
    and "KeyVaultIDFromBaseUrl client (calls metadata @ [CustomCertificatesGetCall i])
           (KeyVaultBaseUri (Properties model)) = Inr (Some raw)"
    and "ParseKeyVaultID client raw = None"
    and "KeyVaultBaseUri (Properties model) \<noteq> []"
  shows "Read_Func client metadata =
           (None,
            metadata\<lparr> ResourceData := (ResourceData metadata)
                \<lparr> name := CustomCertificateName i,
                  web_pubsub_id :=
                    WebPubSubId_ID (NewWebPubSubID (CustomCertificateId.SubscriptionId i)
                      (CustomCertificateId.ResourceGroupName i)
                      (CustomCertificateId.WebPubSubName i)),
                  custom_certificate_id :=
                    NestedItemId_ID
                      \<lparr> KeyVaultBaseUrl = KeyVaultBaseUri (Properties model),
                        NestedItemType = ''certificates'',
                        NestedItemId.Name = KeyVaultSecretName (Properties model),
                        Version = NormalizeNilableString
                                    (KeyVaultSecretVersion (Properties model)) \<rparr>,
                  certificate_version :=
                    NormalizeNilableString (KeyVaultSecretVersion (Properties model)) \<rparr>,
              calls := calls metadata @ [CustomCertificatesGetCall i,
                         KeyVaultIDFromBaseUrlCall (KeyVaultBaseUri (Properties model))] \<rparr>)"
  using assms unfolding Read_Func_def
  by (simp add: Let_def record_call_def NewNestedItemID_def Encode_def NormalizeNilableString_def
      split: option.splits)

text \<open>A Read that returns no error after a lookup with a payload has resolved the
  vault.\<close>

lemma Read_Func_cases:
  assumes "Read_Func client metadata = (None, metadata')"
    and "ParseCustomCertificateID (Id (ResourceData metadata)) = Inr i"
    and "CustomCertificatesGet client (calls metadata) i = (resp, None)"
    and "Model resp = Some model"
  obtains raw where
    "KeyVaultIDFromBaseUrl client (calls metadata @ [CustomCertificatesGetCall i])
       (KeyVaultBaseUri (Properties model)) = Inr (Some raw)"
    "ParseKeyVaultID client raw = None"
    "KeyVaultBaseUri (Properties model) \<noteq> []"
  using assms unfolding Read_Func_def
  by (auto simp: Let_def record_call_def NewNestedItemID_def
      split: sum.splits option.splits if_splits)

lemma example_Read:
  "Read_Func stub_Client example_created = (None, example_refreshed)"
proof -
  have base: "KeyVaultBaseUri (Properties example_object) = ''https://vault1.vault.azure.net/''"
    by (simp add: example_object_def)
  have "Read_Func stub_Client example_created =
          (None,
            example_created\<lparr> ResourceData := (ResourceData example_created)
                \<lparr> name := CustomCertificateName example_id,
                  web_pubsub_id :=
                    WebPubSubId_ID (NewWebPubSubID (CustomCertificateId.SubscriptionId example_id)
                      (CustomCertificateId.ResourceGroupName example_id)
                      (CustomCertificateId.WebPubSubName example_id)),
                  custom_certificate_id :=
                    NestedItemId_ID
                      \<lparr> KeyVaultBaseUrl = KeyVaultBaseUri (Properties example_object),
                        NestedItemType = ''certificates'',
                        NestedItemId.Name = KeyVaultSecretName (Properties example_object),
                        Version = NormalizeNilableString
                                    (KeyVaultSecretVersion (Properties example_object)) \<rparr>,
                  certificate_version :=
                    NormalizeNilableString (KeyVaultSecretVersion (Properties example_object)) \<rparr>,
              calls := calls example_created @ [CustomCertificatesGetCall example_id,
                         KeyVaultIDFromBaseUrlCall (KeyVaultBaseUri (Properties example_object))] \<rparr>)"
    by (rule Read_Func_model[OF example_created_Id stub_Get_created _
          stub_KeyVaultIDFromBaseUrl stub_ParseKeyVaultID])
      (simp_all add: base)
  moreover have "NestedItemId_ID
      \<lparr> KeyVaultBaseUrl = ''https://vault1.vault.azure.net/'', NestedItemType = ''certificates'',
        NestedItemId.Name = ''mycert'', Version = ''abc123'' \<rparr>
      = ''https://vault1.vault.azure.net/certificates/mycert/abc123''"
    by (simp add: NestedItemId_ID_def NestedItemId_segments_def trim_suffix_slash_def)
  ultimately show ?thesis
    by (simp add: example_refreshed_def example_created_def example_config_def example_object_def
        example_id_def example_parent_ID NormalizeNilableString_def)
qed

section \<open>The claims\<close>

text \<open>C1. The spec's example: Create with the reference
  \<^verbatim>\<open>https://vault1.vault.azure.net/secrets/mycert/abc123\<close> stores the object with
  the vault address, the name \<^verbatim>\<open>mycert\<close> and the version \<^verbatim>\<open>abc123\<close>. The Read
  that follows sets the version attribute to \<^verbatim>\<open>abc123\<close> and rebuilds the reference
  with the fixed kind \<^verbatim>\<open>certificates\<close>, that is
  \<^verbatim>\<open>https://vault1.vault.azure.net/certificates/mycert/abc123\<close>: the input with its
  item kind replaced.\<close>

theorem example_create_then_read:
  "Create_Func stub_Client example_config = (None, example_created)
   \<and> last (calls example_created)
       = CustomCertificatesCreateOrUpdateThenPollCall example_id
           \<lparr> Properties = \<lparr> KeyVaultBaseUri = ''https://vault1.vault.azure.net/'',
                             KeyVaultSecretName = ''mycert'',
                             KeyVaultSecretVersion = Some ''abc123'' \<rparr> \<rparr>
   \<and> fst (Read_Func stub_Client example_created) = None
   \<and> custom_certificate_id (ResourceData (snd (Read_Func stub_Client example_created)))
       = ''https://vault1.vault.azure.net/certificates/mycert/abc123''
   \<and> certificate_version (ResourceData (snd (Read_Func stub_Client example_created)))
       = ''abc123''"
proof -
  have "last (calls example_created)
       = CustomCertificatesCreateOrUpdateThenPollCall example_id
           \<lparr> Properties = \<lparr> KeyVaultBaseUri = ''https://vault1.vault.azure.net/'',
                             KeyVaultSecretName = ''mycert'',
                             KeyVaultSecretVersion = Some ''abc123'' \<rparr> \<rparr>"
    by (simp add: example_created_def example_object_def)
  moreover have "custom_certificate_id (ResourceData example_refreshed)
       = ''https://vault1.vault.azure.net/certificates/mycert/abc123''"
    and "certificate_version (ResourceData example_refreshed) = ''abc123''"
    by (simp_all add: example_refreshed_def)
  ultimately show ?thesis
    by (simp only: example_Create example_Read fst_conv snd_conv simp_thms)
qed

text \<open>C1, as the spec states it, fails: the reference that Read rebuilds in the example
  is not the string that was given to Create.\<close>

theorem example_reference_not_restored:
  "custom_certificate_id
     (ResourceData (snd (Read_Func stub_Client (snd (Create_Func stub_Client example_config)))))
   \<noteq> custom_certificate_id (ResourceData example_config)"
proof -
  have "custom_certificate_id (ResourceData example_refreshed)
        \<noteq> custom_certificate_id (ResourceData example_config)"
    by (simp add: example_refreshed_def example_config_def)
  then show ?thesis
    by (simp only: example_Create example_Read snd_conv simp_thms)
qed

text \<open>C2. When the lookup at the derived identifier does not say not-found, Create
  stops there: it returns the import-required error if the lookup had no error and the
  lookup's error otherwise, and the lookup is the only remote call it made; the
  resource data is as before.\<close>

theorem create_existing_requires_import:
  assumes "Decode client (ResourceData metadata) = Inr m"
    and "ParseWebPubSubID (web_pubsub_id (ResourceData metadata)) = Inr p"
    and "ParseOptionallyVersionedNestedItemID (custom_certificate_id (ResourceData metadata)) = Inr k"
    and "i = NewCustomCertificateID (WebPubSubId.SubscriptionId p)
               (WebPubSubId.ResourceGroupName p) (WebPubSubId.WebPubSubName p) (Name m)"
    and "CustomCertificatesGet client (calls metadata) i = (existing, err)"
    and "\<not> WasNotFound (HttpResponse existing)"
  shows "Create_Func client metadata =
           (case err of
              None \<Rightarrow> Some (ImportAsExistsError ResourceType (CustomCertificateId_ID i))
            | Some e \<Rightarrow> Some (CheckingForExistingError (CustomCertificateId_ID i) e),
            metadata\<lparr> calls := calls metadata @ [CustomCertificatesGetCall i] \<rparr>)"
  using assms unfolding Create_Func_def
  by (simp add: Let_def record_call_def ResourceRequiresImport_def split: option.splits)

theorem create_existing_requires_import_witness:
  "\<not> WasNotFound (HttpResponse (fst (CustomCertificatesGet stub_Client (calls example_created) example_id)))
   \<and> Create_Func stub_Client example_created =
       (Some (ImportAsExistsError ''azurerm_web_pubsub_custom_certificate''
          ''/subscriptions/sub1/resourceGroups/rg1/providers/Microsoft.SignalRService/webPubSub/svcA/customCertificates/cert1''),
        example_created\<lparr> calls := calls example_created @ [CustomCertificatesGetCall example_id] \<rparr>)"
proof -
  have "Create_Func stub_Client example_created =
          (case None of
              None \<Rightarrow> Some (ImportAsExistsError ResourceType (CustomCertificateId_ID example_id))
            | Some e \<Rightarrow> Some (CheckingForExistingError (CustomCertificateId_ID example_id) e),
           example_created\<lparr> calls := calls example_created @ [CustomCertificatesGetCall example_id] \<rparr>)"
  proof (rule create_existing_requires_import)
    show "Decode stub_Client (ResourceData example_created) =
      Inr \<lparr> Name = ''cert1'', WebPubsubId = web_pubsub_id (ResourceData example_created),
        CustomCertId = custom_certificate_id (ResourceData example_created),
        CertificateVersion = [] \<rparr>"
      by (simp add: stub_Decode example_created_def example_config_def)
    show "ParseWebPubSubID (web_pubsub_id (ResourceData example_created)) =
      Inr \<lparr> WebPubSubId.SubscriptionId = ''sub1'', WebPubSubId.ResourceGroupName = ''rg1'',
           WebPubSubId.WebPubSubName = ''svcA'' \<rparr>"
      by (simp add: example_created_def example_config_def example_parent)
    show "ParseOptionallyVersionedNestedItemID
            (custom_certificate_id (ResourceData example_created)) =
      Inr \<lparr> KeyVaultBaseUrl = ''https://vault1.vault.azure.net/'', NestedItemType = ''secrets'',
           NestedItemId.Name = ''mycert'', Version = ''abc123'' \<rparr>"
      by (simp add: example_created_def example_config_def example_reference)
    show "CustomCertificatesGet stub_Client (calls example_created) example_id =
       (\<lparr> HttpResponse = Some \<lparr> StatusCode = 200 \<rparr>, Model = Some example_object \<rparr>, None)"
      by (rule stub_Get_created)
  qed (simp_all add: example_id_def NewCustomCertificateID_def WasNotFound_def)
  then show ?thesis
    by (simp add: stub_Get_created WasNotFound_def ResourceType_def example_id_ID)
qed

text \<open>C3. When the lookup of Read fails and the response says not-found, Read removes
  the binding from state (the state key becomes empty) and returns no error; when the
  lookup fails in any other way, Read returns that failure as an error.\<close>

theorem read_not_found_marks_gone:
  assumes "ParseCustomCertificateID (Id (ResourceData metadata)) = Inr i"
    and "CustomCertificatesGet client (calls metadata) i = (resp, Some e)"
  shows "Read_Func client metadata =
           (if WasNotFound (HttpResponse resp)
            then (None, metadata\<lparr> ResourceData := (ResourceData metadata)\<lparr> Id := [] \<rparr>,
                          calls := calls metadata @ [CustomCertificatesGetCall i] \<rparr>)
            else (Some (RetrievingError (CustomCertificateId_ID i) e),
                  metadata\<lparr> calls := calls metadata @ [CustomCertificatesGetCall i] \<rparr>))"
  using assms unfolding Read_Func_def
  by (simp add: Let_def record_call_def MarkAsGone_def)

theorem read_not_found_marks_gone_witness:
  "ParseCustomCertificateID (Id (ResourceData example_deleted)) = Inr example_id
   \<and> fst (Read_Func stub_Client example_deleted) = None
   \<and> Id (ResourceData (snd (Read_Func stub_Client example_deleted))) = []"
proof -
  have parse: "ParseCustomCertificateID (Id (ResourceData example_deleted)) = Inr example_id"
    by (simp add: example_deleted_def example_created_def example_id_parse)
  show ?thesis
    using read_not_found_marks_gone[OF parse stub_Get_deleted] parse
    by (simp add: WasNotFound_def)
qed

text \<open>C4. When the lookup says not-found, Create hands to
  \<^verbatim>\<open>CustomCertificatesCreateOrUpdateThenPoll\<close> the object that has the vault address
  and the name of the parsed reference, and a version exactly when the parsed reference
  has a non-empty one (the version of the reference then, no version field otherwise):
  what Create returns is what the client answers for this object, and this object is
  the one in the log.\<close>

theorem create_submits_parsed_reference:
  assumes "Decode client (ResourceData metadata) = Inr m"
    and "ParseWebPubSubID (web_pubsub_id (ResourceData metadata)) = Inr p"
    and "ParseOptionallyVersionedNestedItemID (custom_certificate_id (ResourceData metadata)) = Inr k"
    and "i = NewCustomCertificateID (WebPubSubId.SubscriptionId p)
               (WebPubSubId.ResourceGroupName p) (WebPubSubId.WebPubSubName p) (Name m)"
    and "CustomCertificatesGet client (calls metadata) i = (existing, err)"
    and "WasNotFound (HttpResponse existing)"
  shows "Create_Func client metadata =
           (case CustomCertificatesCreateOrUpdateThenPoll client
                   (calls metadata @ [CustomCertificatesGetCall i]) i
                   \<lparr> Properties =
                       \<lparr> KeyVaultBaseUri = KeyVaultBaseUrl k,
                         KeyVaultSecretName = NestedItemId.Name k,
                         KeyVaultSecretVersion =
                           (if Version k = [] then None else Some (Version k)) \<rparr> \<rparr> of
              Some e \<Rightarrow>
                (Some (CreatingError (CustomCertificateId_ID i) e),
                 metadata\<lparr> calls := calls metadata @
                   [CustomCertificatesGetCall i,
                    CustomCertificatesCreateOrUpdateThenPollCall i
                      \<lparr> Properties =
                          \<lparr> KeyVaultBaseUri = KeyVaultBaseUrl k,
                            KeyVaultSecretName = NestedItemId.Name k,
                            KeyVaultSecretVersion =
                              (if Version k = [] then None else Some (Version k)) \<rparr> \<rparr>] \<rparr>)
            | None \<Rightarrow>
                (None,
                 metadata\<lparr> ResourceData :=
                     (ResourceData metadata)\<lparr> Id := CustomCertificateId_ID i \<rparr>,
                   calls := calls metadata @
                   [CustomCertificatesGetCall i,
                    CustomCertificatesCreateOrUpdateThenPollCall i
                      \<lparr> Properties =
                          \<lparr> KeyVaultBaseUri = KeyVaultBaseUrl k,
                            KeyVaultSecretName = NestedItemId.Name k,
                            KeyVaultSecretVersion =
                              (if Version k = [] then None else Some (Version k)) \<rparr> \<rparr>] \<rparr>))"
  by (rule Create_Func_not_found[OF assms refl refl])

theorem create_submits_parsed_reference_witness:
  "CustomCertificatesCreateOrUpdateThenPoll strict_Client [CustomCertificatesGetCall example_id]
     example_id example_unversioned_object = Some (Upstream ''unexpected object'')
   \<and> Create_Func strict_Client example_config = (None, example_created)"
proof -
  let ?k = "\<lparr> KeyVaultBaseUrl = ''https://vault1.vault.azure.net/'', NestedItemType = ''secrets'',
             NestedItemId.Name = ''mycert'', Version = ''abc123'' \<rparr>"
  have dec: "Decode strict_Client (ResourceData example_config) =
      Inr \<lparr> Name = ''cert1'', WebPubsubId = web_pubsub_id (ResourceData example_config),
        CustomCertId = custom_certificate_id (ResourceData example_config),
        CertificateVersion = [] \<rparr>"
    by (simp add: strict_Client_def stub_Decode example_config_def)
  have par: "ParseWebPubSubID (web_pubsub_id (ResourceData example_config)) =
      Inr \<lparr> WebPubSubId.SubscriptionId = ''sub1'', WebPubSubId.ResourceGroupName = ''rg1'',
           WebPubSubId.WebPubSubName = ''svcA'' \<rparr>"
    by (simp add: example_config_def example_parent)
  have ref: "ParseOptionallyVersionedNestedItemID
            (custom_certificate_id (ResourceData example_config)) = Inr ?k"
    by (simp add: example_config_def example_reference)
  have iden: "example_id = NewCustomCertificateID
       (WebPubSubId.SubscriptionId \<lparr> WebPubSubId.SubscriptionId = ''sub1'',
           WebPubSubId.ResourceGroupName = ''rg1'', WebPubSubId.WebPubSubName = ''svcA'' \<rparr>)
       (WebPubSubId.ResourceGroupName \<lparr> WebPubSubId.SubscriptionId = ''sub1'',
           WebPubSubId.ResourceGroupName = ''rg1'', WebPubSubId.WebPubSubName = ''svcA'' \<rparr>)
       (WebPubSubId.WebPubSubName \<lparr> WebPubSubId.SubscriptionId = ''sub1'',
           WebPubSubId.ResourceGroupName = ''rg1'', WebPubSubId.WebPubSubName = ''svcA'' \<rparr>)
       (Name \<lparr> Name = ''cert1'', WebPubsubId = web_pubsub_id (ResourceData example_config),
          CustomCertId = custom_certificate_id (ResourceData example_config),
          CertificateVersion = [] \<rparr>)"
    by (simp add: example_id_def NewCustomCertificateID_def)
  have get: "CustomCertificatesGet strict_Client (calls example_config) example_id =
       (\<lparr> HttpResponse = Some \<lparr> StatusCode = 404 \<rparr>, Model = None \<rparr>,
        Some (Upstream ''not found''))"
    by (simp add: strict_Client_def example_config_def stub_Get_empty)
  have nf: "WasNotFound (HttpResponse \<lparr> HttpResponse = Some \<lparr> StatusCode = 404 \<rparr>, Model = None \<rparr>)"
    by (simp add: WasNotFound_def)
  have refuse: "CustomCertificatesCreateOrUpdateThenPoll strict_Client
      [CustomCertificatesGetCall example_id] example_id example_unversioned_object
      = Some (Upstream ''unexpected object'')"
    by (simp add: strict_Client_def example_object_def example_unversioned_object_def)
  have obj: "\<lparr> Properties =
               \<lparr> KeyVaultBaseUri = KeyVaultBaseUrl ?k,
                 KeyVaultSecretName = NestedItemId.Name ?k,
                 KeyVaultSecretVersion = (if Version ?k = [] then None else Some (Version ?k)) \<rparr> \<rparr>
             = example_object"
    by (simp add: example_object_def)
  have take: "CustomCertificatesCreateOrUpdateThenPoll strict_Client log i example_object = None"
    for log i
    by (simp add: strict_Client_def)
  from create_submits_parsed_reference[OF dec par ref iden get nf]
  have "Create_Func strict_Client example_config = (None, example_created)"
    unfolding obj
    by (simp add: take example_id_ID example_created_def example_config_def)
  with refuse show ?thesis
    by simp
qed

text \<open>C5. When the lookup of Read returns an object without a version, and the vault
  address of the object is resolved, Read returns no error and sets the version
  attribute to the empty string; the reference it rebuilds has no version segment.\<close>

theorem read_absent_version:
  assumes "ParseCustomCertificateID (Id (ResourceData metadata)) = Inr i"
    and "CustomCertificatesGet client (calls metadata) i = (resp, None)"
    and "Model resp = Some model"
    and "KeyVaultSecretVersion (Properties model) = None"
    and "KeyVaultIDFromBaseUrl client (calls metadata @ [CustomCertificatesGetCall i])
           (KeyVaultBaseUri (Properties model)) = Inr (Some raw)"
    and "ParseKeyVaultID client raw = None"
    and "KeyVaultBaseUri (Properties model) \<noteq> []"
  shows "fst (Read_Func client metadata) = None
       \<and> certificate_version (ResourceData (snd (Read_Func client metadata))) = []
       \<and> custom_certificate_id (ResourceData (snd (Read_Func client metadata))) =
           join ''/'' [trim_suffix_slash (KeyVaultBaseUri (Properties model)), ''certificates'',
                       KeyVaultSecretName (Properties model)]"
  using Read_Func_model[OF assms(1-3) assms(5-7)] assms(4)
  by (simp add: NormalizeNilableString_def NestedItemId_ID_def NestedItemId_segments_def)

theorem read_absent_version_witness:
  "KeyVaultSecretVersion (Properties example_unversioned_object) = None
   \<and> fst (Read_Func stub_Client example_unversioned) = None
   \<and> certificate_version (ResourceData (snd (Read_Func stub_Client example_unversioned))) = []
   \<and> custom_certificate_id (ResourceData (snd (Read_Func stub_Client example_unversioned))) =
       ''https://vault1.vault.azure.net/certificates/mycert''"
proof -
  have parse: "ParseCustomCertificateID (Id (ResourceData example_unversioned)) = Inr example_id"
    by (simp add: example_unversioned_def example_created_def example_id_parse)
  have props: "KeyVaultSecretVersion (Properties example_unversioned_object) = None"
    "KeyVaultBaseUri (Properties example_unversioned_object) \<noteq> []"
    by (simp_all add: example_unversioned_object_def)
  show ?thesis
    using read_absent_version[OF parse stub_Get_unversioned _ props(1)
        stub_KeyVaultIDFromBaseUrl stub_ParseKeyVaultID props(2)]
    by (simp add: example_unversioned_object_def trim_suffix_slash_def)
qed




text \<open>C7. When the lookup of Read has no error and its response has no payload, Read
  returns the nil-model error; it has made no other call and the resource data is as
  before.\<close>

theorem read_nil_model_fails:
  assumes "ParseCustomCertificateID (Id (ResourceData metadata)) = Inr i"
    and "CustomCertificatesGet client (calls metadata) i = (resp, None)"
    and "Model resp = None"
  shows "Read_Func client metadata =
           (Some (NilModelError (CustomCertificateId_ID i)),
            metadata\<lparr> calls := calls metadata @ [CustomCertificatesGetCall i] \<rparr>)"
  using assms unfolding Read_Func_def
  by (simp add: Let_def record_call_def)

theorem read_nil_model_fails_witness:
  "Model (fst (CustomCertificatesGet nil_model_Client (calls example_created) example_id)) = None
   \<and> snd (CustomCertificatesGet nil_model_Client (calls example_created) example_id) = None
   \<and> fst (Read_Func nil_model_Client example_created) =
       Some (NilModelError
         ''/subscriptions/sub1/resourceGroups/rg1/providers/Microsoft.SignalRService/webPubSub/svcA/customCertificates/cert1'')"
proof -
  have get: "CustomCertificatesGet nil_model_Client (calls example_created) example_id =
      (\<lparr> HttpResponse = Some \<lparr> StatusCode = 200 \<rparr>, Model = None \<rparr>, None)"
    by (simp add: nil_model_Client_def)
  show ?thesis
    using read_nil_model_fails[OF example_created_Id get] get
    by (simp add: example_id_ID)
qed

text \<open>C8. The timeouts: 30 minutes for Create, 30 minutes for Delete, 5 minutes for
  Read (a minute is 60 seconds of 1000000000 nanoseconds).\<close>

theorem lifecycle_timeouts:
  "Timeout Create = 30 * Minute \<and> Timeout Delete = 30 * Minute \<and> Timeout Read = 5 * Minute
   \<and> Minute = 60 * 1000000000"
  by (simp add: Create_def Delete_def Read_def Minute_def Second_def)

text \<open>C9. A Create that returns no error leaves the resource data as it was except
  for the state key, which is the derived identifier; the version attribute is the
  one from before.\<close>

theorem create_only_sets_id:
  assumes "Create_Func client metadata = (None, metadata')"
  shows "\<exists>m p. Decode client (ResourceData metadata) = Inr m
           \<and> ParseWebPubSubID (web_pubsub_id (ResourceData metadata)) = Inr p
           \<and> ResourceData metadata' =
               (ResourceData metadata)
                 \<lparr> Id := CustomCertificateId_ID
                           (NewCustomCertificateID (WebPubSubId.SubscriptionId p)
                              (WebPubSubId.ResourceGroupName p) (WebPubSubId.WebPubSubName p)
                              (Name m)) \<rparr>
           \<and> certificate_version (ResourceData metadata')
               = certificate_version (ResourceData metadata)"
proof -
  from assms obtain m p k existing err where
    h: "Decode client (ResourceData metadata) = Inr m"
    "ParseWebPubSubID (web_pubsub_id (ResourceData metadata)) = Inr p"
    "ParseOptionallyVersionedNestedItemID (custom_certificate_id (ResourceData metadata)) = Inr k"
    "CustomCertificatesGet client (calls metadata)
       (NewCustomCertificateID (WebPubSubId.SubscriptionId p)
          (WebPubSubId.ResourceGroupName p) (WebPubSubId.WebPubSubName p) (Name m))
     = (existing, err)"
    "WasNotFound (HttpResponse existing)"
    by (rule Create_Func_cases)
  from Create_Func_not_found[OF h(1-3) refl h(4,5) refl refl] assms
  have "ResourceData metadata' =
               (ResourceData metadata)
                 \<lparr> Id := CustomCertificateId_ID
                           (NewCustomCertificateID (WebPubSubId.SubscriptionId p)
                              (WebPubSubId.ResourceGroupName p) (WebPubSubId.WebPubSubName p)
                              (Name m)) \<rparr>"
    by (auto split: option.splits)
  with h(1,2) show ?thesis
    by simp
qed

theorem create_only_sets_id_witness:
  "Create_Func stub_Client example_config = (None, example_created)
   \<and> ResourceData example_created =
       (ResourceData example_config)
         \<lparr> Id := ''/subscriptions/sub1/resourceGroups/rg1/providers/Microsoft.SignalRService/webPubSub/svcA/customCertificates/cert1'' \<rparr>
   \<and> certificate_version (ResourceData example_created) = []"
  using create_only_sets_id[OF example_Create] example_Create
  by (simp add: example_created_def example_config_def)

text \<open>C10. After a Read that wrote the fields, the version attribute is the version
  of the remote object (empty if the object has none), and the reference Read rebuilt is
  made of the vault address, the kind \<^verbatim>\<open>certificates\<close>, the name and, when it is
  not empty, that same version attribute: no version segment when the attribute is
  empty.\<close>

theorem read_version_agreement:
  assumes "Read_Func client metadata = (None, metadata')"
    and "ParseCustomCertificateID (Id (ResourceData metadata)) = Inr i"
    and "CustomCertificatesGet client (calls metadata) i = (resp, None)"
    and "Model resp = Some model"
  shows "certificate_version (ResourceData metadata') =
           (case KeyVaultSecretVersion (Properties model) of None \<Rightarrow> [] | Some v \<Rightarrow> v)
       \<and> custom_certificate_id (ResourceData metadata') =
           join ''/'' ([trim_suffix_slash (KeyVaultBaseUri (Properties model)), ''certificates'',
                        KeyVaultSecretName (Properties model)]
                       @ (if certificate_version (ResourceData metadata') = [] then []
                          else [certificate_version (ResourceData metadata')]))"
proof -
  from assms obtain raw where
    "KeyVaultIDFromBaseUrl client (calls metadata @ [CustomCertificatesGetCall i])
       (KeyVaultBaseUri (Properties model)) = Inr (Some raw)"
    "ParseKeyVaultID client raw = None"
    "KeyVaultBaseUri (Properties model) \<noteq> []"
    by (rule Read_Func_cases)
  from Read_Func_model[OF assms(2-4) this] assms(1)
  show ?thesis
    by (auto simp: NormalizeNilableString_def NestedItemId_ID_def NestedItemId_segments_def
        split: option.splits)
qed

theorem read_version_agreement_witness:
  "Read_Func stub_Client example_created = (None, example_refreshed)
   \<and> certificate_version (ResourceData example_refreshed) = ''abc123''
   \<and> custom_certificate_id (ResourceData example_refreshed) =
       ''https://vault1.vault.azure.net/certificates/mycert/abc123''"
  using read_version_agreement[OF example_Read example_created_Id stub_Get_created] example_Read
  by (simp add: example_object_def trim_suffix_slash_def)

end
